theory Spec2Isabelle
  imports Complex_Main "HOL-Library.Word"
begin

section \<open>The GeoJSON converter (backend/scripts/simple\_geojson\_converter.js)\<close>

subsection \<open>Coordinate extraction\<close>

text \<open>
  The converter reads a GeoJSON feature collection with \<open>JSON.parse\<close>. A property value
  of a feature is any JSON value; JavaScript's \<open>||\<close> picks its left operand when that
  operand is truthy.
\<close>

datatype json =
  JNull
| JBool bool
| JNum real
| JStr string
| JArr "json list"
| JObj "(string \<times> json) list"

fun truthy :: "json \<Rightarrow> bool" where
  "truthy JNull = False"
| "truthy (JBool b) = b"
| "truthy (JNum x) = (x \<noteq> 0)"
| "truthy (JStr s) = (s \<noteq> [])"
| "truthy (JArr xs) = True"
| "truthy (JObj kvs) = True"

text \<open>
  A position is the array of numbers found in the file, longitude first. A geometry is
  the tagged union the code dispatches on by \<open>geometry.type\<close>; \<open>OtherGeometry t\<close> stands
  for every other type tag \<open>t\<close> (LineString, MultiPoint, \<dots>), whose coordinates the code
  never reads. The \<open>properties\<close> and the \<open>geometry\<close> of a feature may be \<open>null\<close> in GeoJSON
  (\<open>None\<close> here).
\<close>

type_synonym position = "real list"

datatype geometry =
  Point position
| Polygon "position list list"
| MultiPolygon "position list list list"
| OtherGeometry string

text \<open>The value of \<open>geometry.type\<close>.\<close>

fun geometry_type :: "geometry \<Rightarrow> string" where
  "geometry_type (Point p) = ''Point''"
| "geometry_type (Polygon rings) = ''Polygon''"
| "geometry_type (MultiPolygon polys) = ''MultiPolygon''"
| "geometry_type (OtherGeometry t) = t"

record feature =
  properties :: "(string \<rightharpoonup> json) option"
  geometry :: "geometry option"

record geojson =
  features :: "feature list"

text \<open>
  An output point \<open>{ lat, lng, label }\<close>. The array pattern \<open>[lng, lat]\<close> binds the first
  two elements of a position; an element that is missing is \<open>undefined\<close> (\<open>None\<close> here).
\<close>

record coordinate =
  coord_lat :: "real option"
  coord_lng :: "real option"
  coord_label :: json

fun element :: "'a list \<Rightarrow> nat \<Rightarrow> 'a option" where
  "element [] i = None"
| "element (x # xs) 0 = Some x"
| "element (x # xs) (Suc i) = element xs i"

text \<open>Reading \<open>geometry.type\<close> of a \<open>null\<close> geometry throws.\<close>

datatype js_error = TypeError

text \<open>
  \<open>v || d\<close>, where \<open>v\<close> is the result of a property lookup (\<open>None\<close> for \<open>undefined\<close>), and
  \<open>feature.properties?.k\<close>.
\<close>

definition js_or :: "json option \<Rightarrow> json \<Rightarrow> json" where
  "js_or v d = (case v of None \<Rightarrow> d | Some x \<Rightarrow> if truthy x then x else d)"

definition property :: "feature \<Rightarrow> string \<Rightarrow> json option" where
  "property f k = (case properties f of None \<Rightarrow> None | Some ps \<Rightarrow> ps k)"

text \<open>
  \<^verbatim>\<open>const label = feature.properties?.FieldName || "Unknown";\<close>
\<close>

definition feature_label :: "feature \<Rightarrow> json" where
  "feature_label f = js_or (property f ''FieldName'') (JStr ''Unknown'')"

text \<open>
  The same line in the converter that backend/build.sh writes out
  (scripts/geojson\_converter.js):
  \<^verbatim>\<open>const label = feature.properties?.FieldName || feature.properties?.name || "Unknown";\<close>
\<close>

definition feature_label_build :: "feature \<Rightarrow> json" where
  "feature_label_build f =
     js_or (property f ''FieldName'') (js_or (property f ''name'') (JStr ''Unknown''))"

text \<open>
  \<^verbatim>\<open>
  function extractCoordinates(geojson) {
    const coords = [];
    geojson.features.forEach((feature) => {
      const label = feature.properties?.FieldName || "Unknown";
      const geometry = feature.geometry;
      if (geometry.type === "Polygon") {
        geometry.coordinates.forEach((ring) => {
          ring.forEach(([lng, lat]) => { coords.push({ lat, lng, label }); });
        });
      } else if (geometry.type === "MultiPolygon") {
        geometry.coordinates.forEach((poly) => {
          poly.forEach((ring) => {
            ring.forEach(([lng, lat]) => { coords.push({ lat, lng, label }); });
          });
        });
      } else if (geometry.type === "Point") {
        const [lng, lat] = geometry.coordinates;
        coords.push({ lat, lng, label });
      }
    });
    return coords;
  }
  \<close>
  The array \<open>coords\<close> is threaded through: \<open>push_position\<close> is one \<open>coords.push\<close>,
  \<open>extract_feature\<close> the callback of the outer \<open>forEach\<close>, and \<open>forEach_feature\<close> the outer
  \<open>forEach\<close>, which an exception of the callback leaves at once. There is no \<open>else\<close>
  branch: a feature of another geometry type leaves \<open>coords\<close> as it is.
\<close>

definition push_position :: "json \<Rightarrow> position \<Rightarrow> coordinate list \<Rightarrow> coordinate list" where
  "push_position label p coords =
     coords @ [\<lparr>coord_lat = element p 1, coord_lng = element p 0, coord_label = label\<rparr>]"

definition extract_feature :: "feature \<Rightarrow> coordinate list \<Rightarrow> js_error + coordinate list" where
  "extract_feature f coords =
     (let label = feature_label f
      in case geometry f of
           None \<Rightarrow> Inl TypeError
         | Some (Polygon rings) \<Rightarrow>
             Inr (fold (\<lambda>ring. fold (push_position label) ring) rings coords)
         | Some (MultiPolygon polys) \<Rightarrow>
             Inr (fold (\<lambda>poly. fold (\<lambda>ring. fold (push_position label) ring) poly) polys coords)
         | Some (Point p) \<Rightarrow> Inr (push_position label p coords)
         | Some (OtherGeometry t) \<Rightarrow> Inr coords)"

fun forEach_feature :: "feature list \<Rightarrow> coordinate list \<Rightarrow> js_error + coordinate list" where
  "forEach_feature [] coords = Inr coords"
| "forEach_feature (f # fs) coords =
     (case extract_feature f coords of
        Inl e \<Rightarrow> Inl e
      | Inr coords' \<Rightarrow> forEach_feature fs coords')"

definition extractCoordinates :: "geojson \<Rightarrow> js_error + coordinate list" where
  "extractCoordinates g = forEach_feature (features g) []"


subsection \<open>Coordinate sampling\<close>

text \<open>
  \<^verbatim>\<open>
  function sampleCoordinates(coords, n = 50) {
    const step = Math.max(Math.floor(coords.length / n), 1);
    const sampled = [];
    for (let i = 0; i < coords.length && sampled.length < n; i += step) {
      sampled.push(coords[i]);
    }
    return sampled;
  }
  \<close>
  The array is a list, the budget \<open>n\<close> a natural number (the callers pass the literal 50).
  The \<open>for\<close> loop is the recursive function \<open>sample_loop\<close>, whose arguments are the loop
  variable \<open>i\<close> and the array \<open>sampled\<close> built so far. The loop reads \<open>coords[i]\<close> only under
  the guard \<open>i < coords.length\<close>, so the read is always in range. Every iteration pushes
  one element, hence \<open>n - length sampled\<close> decreases and the loop terminates for every
  step width.
\<close>

function sample_loop :: "'a list \<Rightarrow> nat \<Rightarrow> nat \<Rightarrow> nat \<Rightarrow> 'a list \<Rightarrow> 'a list" where
  "sample_loop coords n step i sampled =
     (if i < length coords \<and> length sampled < n
      then sample_loop coords n step (i + step) (sampled @ [coords ! i])
      else sampled)"
  by pat_completeness auto
termination
  by (relation "measure (\<lambda>(coords, n, step, i, sampled). n - length sampled)") auto

declare sample_loop.simps [simp del]

definition sampleCoordinates :: "'a list \<Rightarrow> nat \<Rightarrow> 'a list" where
  "sampleCoordinates coords n =
     (let step = max (length coords div n) 1
      in sample_loop coords n step 0 [])"

text \<open>
  The converter that backend/build.sh writes out (scripts/geojson\_converter.js) has the
  same loop behind an early return:
  \<^verbatim>\<open>
  function sampleCoordinates(coords, n = 50) {
      if (coords.length <= n) {
          return coords;
      }
      const step = Math.max(Math.floor(coords.length / n), 1);
      ...
  \<close>
\<close>

definition sampleCoordinates_build :: "'a list \<Rightarrow> nat \<Rightarrow> 'a list" where
  "sampleCoordinates_build coords n =
     (if length coords \<le> n then coords
      else let step = max (length coords div n) 1
           in sample_loop coords n step 0 [])"

text \<open>
  \<open>stride_count len step i\<close> is the number of loop indices \<open>i, i + step, i + 2 * step, \<dots>\<close>
  that lie below \<open>len\<close>; it is used to state what the loop computes.
\<close>

definition stride_count :: "nat \<Rightarrow> nat \<Rightarrow> nat \<Rightarrow> nat" where
  "stride_count len step i = (if i < len then Suc ((len - Suc i) div step) else 0)"



section \<open>The environmental router (frontend/src/server/api/routers/environmental.ts)\<close>

subsection \<open>Query classification\<close>

text \<open>
  \<^verbatim>\<open>
  let category: "deforestation" | "biodiversity" | "wildfire" = "biodiversity";
  if (query.toLowerCase().includes("forest") || query.toLowerCase().includes("deforest")) {
    category = "deforestation";
  } else if (query.toLowerCase().includes("fire") || query.toLowerCase().includes("wildfire")) {
    category = "wildfire";
  }
  \<close>
  A query is a JavaScript string, a sequence of 16-bit code units. \<open>toLowerCase\<close> turns
  the code units of the letters A to Z into those of a to z and leaves every other
  code unit below 0x80 as it is, whatever stands around it. The case conversion of the
  code units from 0x80 on comes from the Unicode tables of the JavaScript runtime and
  is the parameter \<open>unicode\<close>: \<open>unicode s i\<close> is what position \<open>i\<close> of \<open>s\<close> contributes to the
  result. It may depend on the context (a final sigma), be empty (the second half of a
  surrogate pair) or hold several code units. \<open>ascii s\<close> is the JavaScript string of a
  literal of ASCII characters.
  \<open>str_includes s t\<close> is \<open>s.includes(t)\<close>: \<open>t\<close> occurs in \<open>s\<close> at some position.
  \<open>processWithGemini\<close> is the category that the function of this name returns; its
  other fields (summary, sources, charities) are looked up in a table by that category,
  and the simulated delay has no effect on the value.
\<close>

datatype category = Deforestation | Biodiversity | Wildfire

type_synonym code_unit = "16 word"

type_synonym js_string = "code_unit list"

definition ascii :: "string \<Rightarrow> js_string" where
  "ascii s = map of_char s"

definition toLowerCase_unit :: "code_unit \<Rightarrow> code_unit" where
  "toLowerCase_unit u = (if 0x41 \<le> u \<and> u \<le> 0x5A then u + 0x20 else u)"

definition toLowerCase :: "(js_string \<Rightarrow> nat \<Rightarrow> js_string) \<Rightarrow> js_string \<Rightarrow> js_string" where
  "toLowerCase unicode s =
     concat (map (\<lambda>i. if s ! i < 0x80 then [toLowerCase_unit (s ! i)] else unicode s i)
               [0..<length s])"

fun occurs_at_start :: "'a list \<Rightarrow> 'a list \<Rightarrow> bool" where
  "occurs_at_start s [] = True"
| "occurs_at_start [] (d # t) = False"
| "occurs_at_start (c # s) (d # t) = (c = d \<and> occurs_at_start s t)"

fun str_includes :: "'a list \<Rightarrow> 'a list \<Rightarrow> bool" where
  "str_includes [] t = occurs_at_start [] t"
| "str_includes (c # s) t = (occurs_at_start (c # s) t \<or> str_includes s t)"

definition processWithGemini ::
  "(js_string \<Rightarrow> nat \<Rightarrow> js_string) \<Rightarrow> js_string \<Rightarrow> category" where
  "processWithGemini unicode query =
     (if str_includes (toLowerCase unicode query) (ascii ''forest'')
         \<or> str_includes (toLowerCase unicode query) (ascii ''deforest'')
      then Deforestation
      else if str_includes (toLowerCase unicode query) (ascii ''fire'')
         \<or> str_includes (toLowerCase unicode query) (ascii ''wildfire'')
      then Wildfire
      else Biodiversity)"

subsection \<open>The mock datasets\<close>

text \<open>
  JavaScript numbers are modelled as real numbers: the arithmetic of the synthesis
  (\<open>value * 0.6\<close>, \<open>1 - intensity\<close>, \<open>Math.abs(change)\<close>) is exact here and rounded to a double
  in the code.
\<close>

datatype severity = Low | Medium | High

record LocationPoint =
  lat :: real
  lng :: real
  name :: string
  "value" :: real
  severity :: severity

record HeatCell =
  cell_lat :: real
  cell_lng :: real
  intensity :: real
  cell_value :: real

record Bounds =
  north :: real
  south :: real
  east :: real
  west :: real

text \<open>The field \<open>data\<close> of the heatmap object is \<open>cells\<close> here.\<close>

record HeatmapData =
  bounds :: Bounds
  gridSize :: nat
  cells :: "HeatCell list"

record Metric =
  label :: string
  metric_value :: string
  change :: real

record NumbersData =
  totalAffectedArea :: real
  percentageChange :: real
  timeframe :: string
  keyMetrics :: "Metric list"

text \<open>
  The three module-level constants \<open>mockPinpointData\<close>, \<open>mockHeatmapData\<close> and
  \<open>mockNumbersData\<close> form the state that the synthesis reads. The synthesis functions
  below take it as an argument, so that what is proved holds for every base dataset.
\<close>

record MockData =
  mockPinpointData :: "LocationPoint list"
  mockHeatmapData :: HeatmapData
  mockNumbersData :: NumbersData

definition mockPinpointData_init :: "LocationPoint list" where
  "mockPinpointData_init =
     [\<lparr>lat = 46.5547, lng = -84.3675, name = ''Tahquamenon Falls State Park'',
       value = 85, severity = Low\<rparr>,
      \<lparr>lat = 45.0218, lng = -83.5539, name = ''Huron-Manistee Forest'',
       value = 65, severity = Medium\<rparr>,
      \<lparr>lat = 46.9059, lng = -88.5498, name = ''Copper Harbor'',
       value = 40, severity = High\<rparr>,
      \<lparr>lat = 42.4072, lng = -83.9424, name = ''Detroit River'',
       value = 75, severity = Medium\<rparr>,
      \<lparr>lat = 44.3106, lng = -85.6027, name = ''Traverse City Bay'',
       value = 90, severity = Low\<rparr>]"

text \<open>
  The heatmap cells are drawn with \<open>Math.random()\<close> once, when the module is loaded:
  \<^verbatim>\<open>
  data: Array.from({ length: 100 }, (_, i) => ({
    lat: 41 + (i % 10) * 0.7,
    lng: -90 + Math.floor(i / 10) * 0.8,
    intensity: Math.random(),
    value: Math.floor(Math.random() * 100),
  })),
  \<close>
  \<open>random k\<close> is the result of the \<open>k\<close>-th call of \<open>Math.random()\<close>.
\<close>

definition mockHeatmapData_init :: "(nat \<Rightarrow> real) \<Rightarrow> HeatmapData" where
  "mockHeatmapData_init random =
     \<lparr>bounds = \<lparr>north = 48.0, south = 41.0, east = -82.0, west = -90.0\<rparr>,
      gridSize = 10,
      cells = map (\<lambda>i. \<lparr>cell_lat = 41 + real (i mod 10) * 0.7,
                        cell_lng = -90 + real (i div 10) * 0.8,
                        intensity = random (2 * i),
                        cell_value = of_int \<lfloor>random (2 * i + 1) * 100\<rfloor>\<rparr>) [0..<100]\<rparr>"

definition mockNumbersData_init :: NumbersData where
  "mockNumbersData_init =
     \<lparr>totalAffectedArea = 1250000,
      percentageChange = -12.5,
      timeframe = ''2017-2024'',
      keyMetrics =
        [\<lparr>label = ''Forest Coverage'', metric_value = ''52.1%'', change = -2.3\<rparr>,
         \<lparr>label = ''Wetland Area'', metric_value = ''11.2M acres'', change = -0.8\<rparr>,
         \<lparr>label = ''Species Count'', metric_value = ''2,847'', change = 1.2\<rparr>,
         \<lparr>label = ''Protected Areas'', metric_value = ''102'', change = 3.0\<rparr>]\<rparr>"

definition mockData_init :: "(nat \<Rightarrow> real) \<Rightarrow> MockData" where
  "mockData_init random =
     \<lparr>mockPinpointData = mockPinpointData_init,
      mockHeatmapData = mockHeatmapData_init random,
      mockNumbersData = mockNumbersData_init\<rparr>"

subsection \<open>Visualization synthesis\<close>

record Metadata =
  title :: string
  description :: string
  source :: string
  lastUpdated :: string

datatype vis_type = Pinpoints | Heatmap | Numbers

datatype vis_data =
  PinpointsOf "LocationPoint list"
| HeatmapOf HeatmapData
| NumbersOf NumbersData

record Visualization =
  vtype :: vis_type
  vdata :: vis_data
  metadata :: Metadata

text \<open>
  \<open>baseMetadata\<close> is the lookup \<open>metadata[category]\<close> extended by \<open>lastUpdated\<close>; the
  argument \<open>now\<close> is the result of \<open>new Date().toISOString()\<close> at the call.
\<close>

fun baseMetadata :: "category \<Rightarrow> string \<Rightarrow> Metadata" where
  "baseMetadata Deforestation now =
     \<lparr>title = ''Forest Coverage Changes'',
      description = ''Areas of significant forest loss and recovery in Michigan'',
      source = ''Michigan DNR, USFS'',
      lastUpdated = now\<rparr>"
| "baseMetadata Biodiversity now =
     \<lparr>title = ''Biodiversity Hotspots'',
      description = ''Species-rich areas and conservation priorities'',
      source = ''Michigan DNR Wildlife Division'',
      lastUpdated = now\<rparr>"
| "baseMetadata Wildfire now =
     \<lparr>title = ''Wildfire Risk Assessment'',
      description = ''Fire danger zones and prevention areas'',
      source = ''Michigan DNR Fire Division'',
      lastUpdated = now\<rparr>"

text \<open>
  \<^verbatim>\<open>
  switch (type) {
    case "pinpoints":
      return { type: "pinpoints" as const,
        data: mockPinpointData.map(point => ({ ...point,
          value: category === "wildfire" ? point.value * 0.6 : point.value })),
        metadata: baseMetadata };
    case "heatmap":
      return { type: "heatmap" as const,
        data: { ...mockHeatmapData,
          data: mockHeatmapData.data.map(cell => ({ ...cell,
            intensity: category === "deforestation" ? 1 - cell.intensity : cell.intensity })) },
        metadata: baseMetadata };
    case "numbers":
      return { type: "numbers" as const,
        data: { ...mockNumbersData,
          keyMetrics: mockNumbersData.keyMetrics.map(metric => ({ ...metric,
            change: category === "wildfire" ? Math.abs(metric.change) : metric.change })) },
        metadata: baseMetadata };
    default:
      throw new Error(`Unknown visualization type: ${type}`);
  }
  \<close>
  An object spread followed by one field is a record update. The parameter \<open>type\<close> has
  the type \<open>"pinpoints" | "heatmap" | "numbers"\<close>, so the \<open>default\<close> branch has no input.
\<close>

fun generateSingleVisualization ::
  "MockData \<Rightarrow> string \<Rightarrow> vis_type \<Rightarrow> category \<Rightarrow> Visualization" where
  "generateSingleVisualization m now Pinpoints category =
     \<lparr>vtype = Pinpoints,
      vdata = PinpointsOf
        (map (\<lambda>point. point\<lparr>value :=
                 if category = Wildfire then value point * 0.6 else value point\<rparr>)
           (mockPinpointData m)),
      metadata = baseMetadata category now\<rparr>"
| "generateSingleVisualization m now Heatmap category =
     \<lparr>vtype = Heatmap,
      vdata = HeatmapOf
        ((mockHeatmapData m)
           \<lparr>cells := map (\<lambda>cell. cell\<lparr>intensity :=
                            if category = Deforestation then 1 - intensity cell
                            else intensity cell\<rparr>)
                      (cells (mockHeatmapData m))\<rparr>),
      metadata = baseMetadata category now\<rparr>"
| "generateSingleVisualization m now Numbers category =
     \<lparr>vtype = Numbers,
      vdata = NumbersOf
        ((mockNumbersData m)
           \<lparr>keyMetrics := map (\<lambda>metric. metric\<lparr>change :=
                            if category = Wildfire then \<bar>change metric\<bar>
                            else change metric\<rparr>)
                      (keyMetrics (mockNumbersData m))\<rparr>),
      metadata = baseMetadata category now\<rparr>"

text \<open>
  \<^verbatim>\<open>
  async function generateVisualizations(category, timeRange?: string) {
    const visualizations = [];
    visualizations.push(
      await generateSingleVisualization("pinpoints", category),
      await generateSingleVisualization("heatmap", category),
      await generateSingleVisualization("numbers", category)
    );
    return visualizations;
  }
  \<close>
  The three calls run one after the other and read the clock once each: \<open>clock\<close> holds
  the three readings. \<open>timeRange\<close> is not used by the body.
\<close>

definition generateVisualizations ::
  "MockData \<Rightarrow> string \<times> string \<times> string \<Rightarrow> category \<Rightarrow> string option
     \<Rightarrow> Visualization list" where
  "generateVisualizations m clock category timeRange =
     (case clock of (t1, t2, t3) \<Rightarrow>
        [generateSingleVisualization m t1 Pinpoints category,
         generateSingleVisualization m t2 Heatmap category,
         generateSingleVisualization m t3 Numbers category])"

text \<open>
  The endpoint \<open>processQuery\<close> classifies the query and synthesises for the category
  found:
  \<^verbatim>\<open>
  const processed = await processWithGemini(input.query);
  const visualizations = await generateVisualizations(processed.category, input.timeRange);
  return { ..., category: processed.category, ..., visualizations, ... };
  \<close>
  \<open>processQuery\<close> is the pair of the fields \<open>category\<close> and \<open>visualizations\<close> of the
  result.
\<close>

definition processQuery ::
  "(js_string \<Rightarrow> nat \<Rightarrow> js_string) \<Rightarrow> MockData \<Rightarrow> string \<times> string \<times> string
     \<Rightarrow> js_string \<Rightarrow> string option \<Rightarrow> category \<times> Visualization list" where
  "processQuery unicode m clock query timeRange =
     (let category = processWithGemini unicode query
      in (category, generateVisualizations m clock category timeRange))"

text \<open>Small base datasets, on which the theorems below are run.\<close>

definition sample_cells :: HeatmapData where
  "sample_cells =
     \<lparr>bounds = \<lparr>north = 48.0, south = 41.0, east = -82.0, west = -90.0\<rparr>,
      gridSize = 10,
      cells = [\<lparr>cell_lat = 41, cell_lng = -90, intensity = 0.25, cell_value = 17\<rparr>,
               \<lparr>cell_lat = 41.7, cell_lng = -90, intensity = 0.9, cell_value = 64\<rparr>]\<rparr>"

definition sample_data :: MockData where
  "sample_data =
     \<lparr>mockPinpointData = mockPinpointData_init,
      mockHeatmapData = sample_cells,
      mockNumbersData = mockNumbersData_init\<rparr>"


section \<open>Properties of the sampler\<close>

lemma div_add_step:
  fixes a b step :: nat
  shows "0 < step \<Longrightarrow> b = a + step \<Longrightarrow> b div step = Suc (a div step)"
  using div_add_self2 [of step a] by auto

lemma stride_count_step:
  assumes "0 < step" "i < len"
  shows "stride_count len step i = Suc (stride_count len step (i + step))"
proof (cases "i + step < len")
  case True
  then have "len - Suc i = (len - Suc (i + step)) + step"
    by arith
  then have "(len - Suc i) div step = Suc ((len - Suc (i + step)) div step)"
    using assms(1) by (rule div_add_step [rotated])
  then show ?thesis
    using True assms(2) by (simp only: stride_count_def if_True)
next
  case False
  then have "len - Suc i < step"
    using assms by arith
  then have "(len - Suc i) div step = 0"
    by (rule div_less)
  then show ?thesis
    using False assms(2) by (simp only: stride_count_def if_True if_False)
qed

lemma map_upt_shift:
  "map (\<lambda>j. f (i + j * step)) [0..<Suc m] = f i # map (\<lambda>j. f (i + step + j * step)) [0..<m]"
proof -
  have "[0..<Suc m] = 0 # map Suc [0..<m]"
    by (simp only: map_Suc_upt upt_conv_Cons [OF zero_less_Suc])
  then have "map (\<lambda>j. f (i + j * step)) [0..<Suc m] =
             f (i + 0 * step) # map ((\<lambda>j. f (i + j * step)) \<circ> Suc) [0..<m]"
    by (simp only: list.map map_map)
  also have "(\<lambda>j. f (i + j * step)) \<circ> Suc = (\<lambda>j. f (i + step + j * step))"
    by (rule ext) (simp add: add.assoc)
  finally show ?thesis by simp
qed

text \<open>
  What the loop computes from any intermediate state: it appends the elements at
  \<open>i, i + step, \<dots>\<close> until the budget is used up or the indices leave the array.
\<close>

lemma sample_loop_eq:
  "0 < step \<Longrightarrow>
   sample_loop coords n step i sampled =
     sampled @ map (\<lambda>j. coords ! (i + j * step))
       [0..<min (n - length sampled) (stride_count (length coords) step i)]"
proof (induction coords n step i sampled rule: sample_loop.induct)
  case (1 coords n step i sampled)
  show ?case
  proof (cases "i < length coords \<and> length sampled < n")
    case True
    obtain k where k: "n - length sampled = Suc k" "n - length (sampled @ [coords ! i]) = k"
      using True by (cases "n - length sampled") auto
    define c where "c = stride_count (length coords) step (i + step)"
    have sc: "stride_count (length coords) step i = Suc c"
      unfolding c_def using stride_count_step "1.prems" True by blast
    have "sample_loop coords n step i sampled =
          sample_loop coords n step (i + step) (sampled @ [coords ! i])"
      using True by (subst sample_loop.simps) simp
    also have "\<dots> = (sampled @ [coords ! i]) @
                    map (\<lambda>j. coords ! (i + step + j * step)) [0..<min k c]"
      unfolding c_def using "1.IH" [OF True "1.prems"] k(2) by (simp only:)
    also have "\<dots> = sampled @ map (\<lambda>j. coords ! (i + j * step)) [0..<Suc (min k c)]"
      by (simp only: map_upt_shift [where f = "\<lambda>x. coords ! x"]
            append_assoc append_Cons append_Nil)
    also have "Suc (min k c) = min (n - length sampled) (stride_count (length coords) step i)"
      by (simp only: k(1) sc min_Suc_Suc)
    finally show ?thesis .
  next
    case False
    then have "min (n - length sampled) (stride_count (length coords) step i) = 0"
      by (auto simp: stride_count_def)
    then show ?thesis
      using False by (subst sample_loop.simps) auto
  qed
qed

lemma stride_count_over:
  fixes n len :: nat
  assumes "1 \<le> n" "n < len"
  shows "n \<le> stride_count len (len div n) 0"
proof -
  have pos: "0 < len div n"
    using assms by (simp add: div_greater_zero_iff)
  have "n * (len div n) \<le> len"
    by simp
  moreover have "(n - 1) * (len div n) + len div n = n * (len div n)"
    using assms(1) by (cases n) simp_all
  ultimately have "(n - 1) * (len div n) \<le> len - Suc 0"
    using pos by arith
  then have "n - 1 \<le> (len - Suc 0) div (len div n)"
    using pos by (simp only: less_eq_div_iff_mult_less_eq)
  then show ?thesis
    using assms by (simp add: stride_count_def)
qed

lemma stride_index_in_range:
  fixes n len j :: nat
  assumes "1 \<le> n" "n < len" "j < n"
  shows "j * (len div n) < len"
proof -
  have pos: "0 < len div n"
    using assms by (simp add: div_greater_zero_iff)
  have "Suc j * (len div n) \<le> n * (len div n)"
    using assms(3) by (intro mult_le_mono1) simp
  also have "\<dots> \<le> len"
    by simp
  finally show ?thesis
    using pos by simp
qed

lemma sample_over:
  assumes n: "1 \<le> n" "n < length coords"
  shows "sampleCoordinates coords n =
         map (\<lambda>j. coords ! (j * max (length coords div n) 1)) [0..<n]"
proof -
  have pos: "1 \<le> length coords div n"
    using n by (simp add: Suc_le_eq div_greater_zero_iff)
  then have eq: "max (length coords div n) 1 = length coords div n"
    by (simp only: max_absorb1)
  have "min n (stride_count (length coords) (length coords div n) 0) = n"
    using stride_count_over [OF n] by (simp only: min_absorb1)
  then show ?thesis
    using pos by (simp add: sampleCoordinates_def eq sample_loop_eq)
qed

lemma sample_under:
  assumes "1 \<le> n" "length coords \<le> n"
  shows "sampleCoordinates coords n = coords"
proof -
  have "length coords div n \<le> 1"
    using assms by (cases "length coords = n") simp_all
  then have eq: "max (length coords div n) 1 = 1"
    by (simp only: max_absorb2)
  have "stride_count (length coords) 1 0 = length coords"
    by (cases coords) (simp_all add: stride_count_def)
  then have m: "min (n - length ([] :: 'a list)) (stride_count (length coords) 1 0) = length coords"
    using assms(2) by simp
  have "sampleCoordinates coords n = sample_loop coords n 1 0 []"
    by (simp only: sampleCoordinates_def Let_def eq)
  also have "\<dots> = [] @ map (\<lambda>j. coords ! (0 + j * 1)) [0..<length coords]"
    by (simp only: sample_loop_eq [OF zero_less_one] m)
  also have "\<dots> = coords"
    by (simp add: map_nth)
  finally show ?thesis .
qed

text \<open>The two copies of the sampler in the repository compute the same list.\<close>

lemma sampleCoordinates_build_eq:
  "1 \<le> n \<Longrightarrow> sampleCoordinates_build coords n = sampleCoordinates coords n"
proof (cases "length coords \<le> n")
  case True
  assume "1 \<le> n"
  then show ?thesis
    using True by (simp only: sampleCoordinates_build_def sample_under if_True)
next
  case False
  then show ?thesis
    by (simp only: sampleCoordinates_build_def sampleCoordinates_def if_False)
qed

text \<open>
  Claim C1. For a list with more elements than the budget \<open>n \<ge> 1\<close>, the sampler uses the
  stride \<open>max (length coords div n) 1\<close> and returns the elements at the indices
  \<open>0, stride, 2 * stride, \<dots>, (n - 1) * stride\<close>, all of which are in range; the result
  has exactly \<open>n\<close> elements. The result is a function of the list and the budget alone:
  the code reads no random source, so repeated calls give the same list.
\<close>

theorem sampleCoordinates_over_budget:
  assumes "1 \<le> n" and "n < length coords"
  shows "sampleCoordinates coords n =
           map (\<lambda>j. coords ! (j * max (length coords div n) 1)) [0..<n]
         \<and> (\<forall>j < n. j * max (length coords div n) 1 < length coords)
         \<and> length (sampleCoordinates coords n) = n"
proof -
  have pos: "1 \<le> length coords div n"
    using assms by (simp add: Suc_le_eq div_greater_zero_iff)
  then have eq: "max (length coords div n) 1 = length coords div n"
    by (simp only: max_absorb1)
  have "\<forall>j < n. j * (length coords div n) < length coords"
    using stride_index_in_range [OF assms] by blast
  then have "\<forall>j < n. j * max (length coords div n) 1 < length coords"
    by (simp only: eq)
  moreover have "length (sampleCoordinates coords n) = n"
    by (simp only: sample_over [OF assms] length_map length_upt diff_zero)
  ultimately show ?thesis
    using sample_over [OF assms] by blast
qed

theorem sampleCoordinates_over_budget_witness:
  "1 \<le> (3::nat) \<and> 3 < length [10, 20, 30, 40, 50, 60, 70 :: nat]
   \<and> sampleCoordinates [10, 20, 30, 40, 50, 60, 70 :: nat] 3 = [10, 30, 50]"
  using sampleCoordinates_over_budget [of 3 "[10, 20, 30, 40, 50, 60, 70 :: nat]"]
  by (simp add: upt_conv_Cons)

text \<open>
  Claim C2. For a list whose length is at most the budget \<open>n \<ge> 1\<close>, the sampler returns
  the input list: the same elements in the same order.
\<close>

theorem sampleCoordinates_identity:
  assumes "1 \<le> n" and "length coords \<le> n"
  shows "sampleCoordinates coords n = coords"
  using assms by (rule sample_under)

theorem sampleCoordinates_identity_witness:
  "1 \<le> (3::nat) \<and> length [10, 20 :: nat] \<le> 3 \<and> sampleCoordinates [10, 20 :: nat] 3 = [10, 20]"
  using sampleCoordinates_identity [of 3 "[10, 20 :: nat]"] by simp



section \<open>Properties of the extraction\<close>











lemma forEach_feature_append:
  "forEach_feature (fs @ gs) coords =
     (case forEach_feature fs coords of Inl e \<Rightarrow> Inl e | Inr c \<Rightarrow> forEach_feature gs c)"
  by (induction fs arbitrary: coords) (simp_all split: sum.splits)




text \<open>
  Claim C8, as the code has it. A feature whose geometry type is none of Point, Polygon
  and MultiPolygon raises no error and adds no point: the callback returns the array
  it was given, and the extraction of a dataset gives the same result as for the
  dataset without that feature. The code has no strict mode.
\<close>

theorem unsupported_geometry_skipped:
  assumes "geometry f = Some g"
    and "geometry_type g \<notin> {''Point'', ''Polygon'', ''MultiPolygon''}"
  shows "extract_feature f coords = Inr coords
         \<and> extractCoordinates \<lparr>features = fs @ f # gs\<rparr> = extractCoordinates \<lparr>features = fs @ gs\<rparr>"
proof -
  obtain t where "g = OtherGeometry t"
    using assms(2) by (cases g) simp_all
  then have skip: "extract_feature f c = Inr c" for c
    using assms(1) by (simp add: extract_feature_def)
  then have "forEach_feature (f # gs) c = forEach_feature gs c" for c
    by simp
  then have "forEach_feature (fs @ f # gs) [] = forEach_feature (fs @ gs) []"
    by (simp only: forEach_feature_append)
  then show ?thesis
    using skip by (simp add: extractCoordinates_def)
qed

theorem unsupported_geometry_skipped_witness:
  "geometry \<lparr>properties = None, geometry = Some (OtherGeometry ''LineString'')\<rparr>
     = Some (OtherGeometry ''LineString'')
   \<and> geometry_type (OtherGeometry ''LineString'') \<notin> {''Point'', ''Polygon'', ''MultiPolygon''}
   \<and> extractCoordinates \<lparr>features =
         [\<lparr>properties = None, geometry = Some (Point [1, 2])\<rparr>]
         @ \<lparr>properties = None, geometry = Some (OtherGeometry ''LineString'')\<rparr>
         # [\<lparr>properties = None, geometry = Some (Point [3, 4])\<rparr>]\<rparr>
     = Inr [\<lparr>coord_lat = Some 2, coord_lng = Some 1, coord_label = JStr ''Unknown''\<rparr>,
            \<lparr>coord_lat = Some 4, coord_lng = Some 3, coord_label = JStr ''Unknown''\<rparr>]"
proof -
  let ?f = "\<lparr>properties = None, geometry = Some (OtherGeometry ''LineString'')\<rparr>"
  have h1: "geometry ?f = Some (OtherGeometry ''LineString'')"
    by simp
  have h2: "geometry_type (OtherGeometry ''LineString'') \<notin> {''Point'', ''Polygon'', ''MultiPolygon''}"
    by simp
  have "extractCoordinates \<lparr>features =
          [\<lparr>properties = None, geometry = Some (Point [1, 2])\<rparr>]
          @ [\<lparr>properties = None, geometry = Some (Point [3, 4])\<rparr>]\<rparr>
        = Inr [\<lparr>coord_lat = Some 2, coord_lng = Some 1, coord_label = JStr ''Unknown''\<rparr>,
               \<lparr>coord_lat = Some 4, coord_lng = Some 3, coord_label = JStr ''Unknown''\<rparr>]"
    by (simp add: extractCoordinates_def extract_feature_def feature_label_def js_or_def
          property_def push_position_def)
  then show ?thesis
    using h1 h2 unsupported_geometry_skipped [OF h1 h2, of "[]"
        "[\<lparr>properties = None, geometry = Some (Point [1, 2])\<rparr>]"
        "[\<lparr>properties = None, geometry = Some (Point [3, 4])\<rparr>]"]
    by simp
qed

text \<open>
  Claim C8, as the specification states it, fails: the extraction of a LineString
  feature returns normally, with no point and no error.
\<close>

theorem unsupported_geometry_counterexample:
  "extract_feature \<lparr>properties = None, geometry = Some (OtherGeometry ''LineString'')\<rparr> [] = Inr []
   \<and> extractCoordinates
        \<lparr>features = [\<lparr>properties = None, geometry = Some (OtherGeometry ''LineString'')\<rparr>]\<rparr>
       = Inr []"
  by (simp add: extractCoordinates_def extract_feature_def)

text \<open>
  The label. The line of simple\_geojson\_converter.js takes the property \<open>FieldName\<close>
  when it is truthy and the literal "Unknown" otherwise; the property \<open>name\<close> is not
  read. The converter written by build.sh reads \<open>name\<close> in between.
\<close>

lemma feature_label_cases:
  "feature_label f =
     (case property f ''FieldName'' of
        Some v \<Rightarrow> if truthy v then v else JStr ''Unknown''
      | None \<Rightarrow> JStr ''Unknown'')"
  by (simp add: feature_label_def js_or_def split: option.splits)

lemma feature_label_build_name:
  "feature_label_build \<lparr>properties = Some [''name'' \<mapsto> JStr ''Lake Huron''],
                        geometry = Some (Point [-83, 45])\<rparr> = JStr ''Lake Huron''"
  by (simp add: feature_label_build_def js_or_def property_def)

text \<open>
  Claim C9 fails on simple\_geojson\_converter.js: a feature with a \<open>name\<close> property and
  no \<open>FieldName\<close> property gets the label "Unknown".
\<close>

theorem feature_label_ignores_name:
  "extractCoordinates
     \<lparr>features = [\<lparr>properties = Some [''name'' \<mapsto> JStr ''Lake Huron''],
                   geometry = Some (Point [-83, 45])\<rparr>]\<rparr>
   = Inr [\<lparr>coord_lat = Some 45, coord_lng = Some (-83), coord_label = JStr ''Unknown''\<rparr>]"
  by (simp add: extractCoordinates_def extract_feature_def feature_label_def js_or_def
        property_def push_position_def)


section \<open>Properties of the classification\<close>






lemma toLowerCase_ascii_example:
  "toLowerCase unicode (ascii ''ABCXYZ abcxyz @[`{ 09'') = ascii ''abcxyz abcxyz @[`{ 09''"
  by code_simp

text \<open>
  A code unit outside ASCII is converted by the tables: with tables that turn 0xC9 into
  0xE9, the string of the code units 0x43, 0xC9 becomes 0x63, 0xE9.
\<close>

lemma toLowerCase_unicode_example:
  "toLowerCase (\<lambda>s i. if s ! i = 0xC9 then [0xE9] else [s ! i]) [0x43, 0xC9] = [0x63, 0xE9]"
  by code_simp




section \<open>Properties of the synthesis\<close>

text \<open>
  Claim C4. For every category the synthesis returns exactly three artifacts, of the
  types pinpoints, heatmap and numbers in this order, each carrying the data of its
  own kind.
\<close>

theorem generateVisualizations_three:
  "length (generateVisualizations m clock category timeRange) = 3
   \<and> map vtype (generateVisualizations m clock category timeRange)
       = [Pinpoints, Heatmap, Numbers]
   \<and> (\<exists>points heat numbers.
         map vdata (generateVisualizations m clock category timeRange)
           = [PinpointsOf points, HeatmapOf heat, NumbersOf numbers])"
  by (cases clock) (simp add: generateVisualizations_def)

text \<open>
  Claim C5. For the category deforestation every heatmap cell keeps its fields except
  the intensity, which becomes \<open>1 - intensity\<close>; for every other category the heatmap is
  the base heatmap. For deforestation the numbers artifact is the base numbers data,
  so every change keeps its sign; the same holds for every category but wildfire.
  A query that is classified as deforestation gets the pinpoints of the base dataset,
  the inverted heatmap and the numbers of the base dataset.
\<close>

theorem heatmap_inverted_for_deforestation:
  "vdata (generateSingleVisualization m now Heatmap Deforestation)
     = HeatmapOf ((mockHeatmapData m)
         \<lparr>cells := map (\<lambda>cell. cell\<lparr>intensity := 1 - intensity cell\<rparr>)
                      (cells (mockHeatmapData m))\<rparr>)
   \<and> (category \<noteq> Deforestation \<longrightarrow>
        vdata (generateSingleVisualization m now Heatmap category)
          = HeatmapOf (mockHeatmapData m))
   \<and> vdata (generateSingleVisualization m now Numbers Deforestation)
       = NumbersOf (mockNumbersData m)
   \<and> (category \<noteq> Wildfire \<longrightarrow>
        vdata (generateSingleVisualization m now Numbers category)
          = NumbersOf (mockNumbersData m))
   \<and> (fst (processQuery unicode m clock query timeRange) = Deforestation \<longrightarrow>
        map vdata (snd (processQuery unicode m clock query timeRange))
          = [PinpointsOf (mockPinpointData m),
             HeatmapOf ((mockHeatmapData m)
               \<lparr>cells := map (\<lambda>cell. cell\<lparr>intensity := 1 - intensity cell\<rparr>)
                            (cells (mockHeatmapData m))\<rparr>),
             NumbersOf (mockNumbersData m)])"
  by (cases clock) (simp add: processQuery_def generateVisualizations_def Let_def)

theorem heatmap_inverted_for_deforestation_witness:
  "Biodiversity \<noteq> Deforestation \<and> Biodiversity \<noteq> Wildfire
   \<and> map intensity (case vdata (generateSingleVisualization sample_data ''t'' Heatmap Deforestation)
                     of HeatmapOf h \<Rightarrow> cells h | _ \<Rightarrow> []) = [0.75, 0.1]
   \<and> vdata (generateSingleVisualization sample_data ''t'' Heatmap Biodiversity)
       = HeatmapOf sample_cells
   \<and> vdata (generateSingleVisualization sample_data ''t'' Numbers Biodiversity)
       = NumbersOf mockNumbersData_init
   \<and> fst (processQuery (\<lambda>s i. [s ! i]) sample_data (''t1'', ''t2'', ''t3'')
             (ascii ''Deforestation trends in Michigan's Upper Peninsula'') None) = Deforestation
   \<and> map vdata (snd (processQuery (\<lambda>s i. [s ! i]) sample_data (''t1'', ''t2'', ''t3'')
             (ascii ''Deforestation trends in Michigan's Upper Peninsula'') None)) ! 2
       = NumbersOf mockNumbersData_init"
proof -
  have q: "processWithGemini (\<lambda>s i. [s ! i])
             (ascii ''Deforestation trends in Michigan's Upper Peninsula'') = Deforestation"
    by code_simp
  then have h: "fst (processQuery (\<lambda>s i. [s ! i]) sample_data (''t1'', ''t2'', ''t3'')
             (ascii ''Deforestation trends in Michigan's Upper Peninsula'') None) = Deforestation"
    by (simp add: processQuery_def)
  show ?thesis
    using h heatmap_inverted_for_deforestation [where m = sample_data and now = "''t''"
        and category = Biodiversity and unicode = "\<lambda>s i. [s ! i]"
        and clock = "(''t1'', ''t2'', ''t3'')"
        and query = "ascii ''Deforestation trends in Michigan's Upper Peninsula''"
        and timeRange = None]
    by (simp add: sample_data_def sample_cells_def)
qed

text \<open>
  Claim C6. For the category wildfire every pinpoint keeps its fields except the value,
  which is multiplied by 0.6, and every metric keeps its fields except the change,
  which becomes its absolute value. For every other category the pinpoints and the
  numbers are those of the base dataset.
\<close>

theorem wildfire_scaling_and_absolute_change:
  "vdata (generateSingleVisualization m now Pinpoints Wildfire)
     = PinpointsOf (map (\<lambda>point. point\<lparr>value := value point * 0.6\<rparr>) (mockPinpointData m))
   \<and> (category \<noteq> Wildfire \<longrightarrow>
        vdata (generateSingleVisualization m now Pinpoints category)
          = PinpointsOf (mockPinpointData m))
   \<and> vdata (generateSingleVisualization m now Numbers Wildfire)
       = NumbersOf ((mockNumbersData m)
           \<lparr>keyMetrics := map (\<lambda>metric. metric\<lparr>change := \<bar>change metric\<bar>\<rparr>)
                             (keyMetrics (mockNumbersData m))\<rparr>)
   \<and> (category \<noteq> Wildfire \<longrightarrow>
        vdata (generateSingleVisualization m now Numbers category)
          = NumbersOf (mockNumbersData m))"
  by simp

theorem wildfire_scaling_and_absolute_change_witness:
  "Deforestation \<noteq> Wildfire
   \<and> map value (case vdata (generateSingleVisualization sample_data ''t'' Pinpoints Wildfire)
                 of PinpointsOf ps \<Rightarrow> ps | _ \<Rightarrow> []) = [51, 39, 24, 45, 54]
   \<and> map change (case vdata (generateSingleVisualization sample_data ''t'' Numbers Wildfire)
                  of NumbersOf n \<Rightarrow> keyMetrics n | _ \<Rightarrow> []) = [2.3, 0.8, 1.2, 3]
   \<and> vdata (generateSingleVisualization sample_data ''t'' Pinpoints Deforestation)
       = PinpointsOf mockPinpointData_init
   \<and> vdata (generateSingleVisualization sample_data ''t'' Numbers Deforestation)
       = NumbersOf mockNumbersData_init"
  using wildfire_scaling_and_absolute_change [of sample_data "''t''" Deforestation]
  by (simp add: sample_data_def mockPinpointData_init_def mockNumbersData_init_def)

text \<open>
  Claim C10. For every category the pinpoints artifact has as many points as the base
  dataset, in the same order, and every point has the latitude, longitude, name and
  severity of the base point at its position; the points are those of the base dataset
  unless the category is wildfire, so the value is the only field that can differ.
\<close>

theorem pinpoints_frame:
  "\<exists>points.
     vdata (generateSingleVisualization m now Pinpoints category) = PinpointsOf points
     \<and> length points = length (mockPinpointData m)
     \<and> (\<forall>i < length points.
           lat (points ! i) = lat (mockPinpointData m ! i)
           \<and> lng (points ! i) = lng (mockPinpointData m ! i)
           \<and> name (points ! i) = name (mockPinpointData m ! i)
           \<and> severity (points ! i) = severity (mockPinpointData m ! i)
           \<and> points ! i = (mockPinpointData m ! i)\<lparr>value := value (points ! i)\<rparr>)
     \<and> (category \<noteq> Wildfire \<longrightarrow> points = mockPinpointData m)"
  by simp

theorem pinpoints_frame_witness:
  "\<exists>points.
     vdata (generateSingleVisualization sample_data ''t'' Pinpoints Biodiversity) = PinpointsOf points
     \<and> length points = 5
     \<and> (0 < length points \<and> name (points ! 0) = ''Tahquamenon Falls State Park'')
     \<and> (Biodiversity \<noteq> Wildfire \<and> points = mockPinpointData_init)"
  using pinpoints_frame [of sample_data "''t''" Biodiversity]
  by (simp add: sample_data_def mockPinpointData_init_def)

end
